theory Spec2Isabelle
  imports Complex_Main
begin

section \<open>Values shared by the components\<close>

text \<open>
  Values decoded from a JSON body. A JavaScript object is represented by its own
  properties in the order in which \<open>Object.keys\<close> enumerates them; numbers are
  only inspected for being present, never computed with, and are kept as integers.
  Strings are lists of characters of the 8-bit type \<open>char\<close>.
\<close>

datatype json =
    JNull
  | JBool bool
  | JNum int
  | JStr string
  | JArr "json list"
  | JObj "(string \<times> json) list"

datatype js_error = TypeError

text \<open>\<open>Number.prototype.toString()\<close> on a non-negative integer: decimal digits.\<close>

fun show_nat :: "nat \<Rightarrow> string" where
  "show_nat n =
     (if n < 10 then [char_of (48 + n)]
      else show_nat (n div 10) @ [char_of (48 + n mod 10)])"

declare show_nat.simps [simp del]

text \<open>
  \<open>String.prototype.trim()\<close>: white space and line terminators are removed from
  both ends. Of the code points JavaScript counts as white space, those that fit the
  character type are tab, line feed, vertical tab, form feed, carriage return, space and
  the no-break space.
\<close>

definition is_space :: "char \<Rightarrow> bool" where
  "is_space c = (of_char c \<in> {9, 10, 11, 12, 13, 32, 160 :: nat})"

definition trim :: "string \<Rightarrow> string" where
  "trim s = rev (dropWhile is_space (rev (dropWhile is_space s)))"

text \<open>
  A value of type \<open>string | undefined\<close> is a \<open>string option\<close>. It is truthy when it
  is a non-empty string, and \<open>!a\<close> holds when it is not; \<open>a || b\<close> is \<open>a\<close> when \<open>a\<close> is truthy and \<open>b\<close> otherwise.
\<close>

definition truthy :: "string option \<Rightarrow> bool" where
  "truthy a = (case a of None \<Rightarrow> False | Some s \<Rightarrow> s \<noteq> [])"

definition js_not :: "string option \<Rightarrow> bool" where
  "js_not a = (case a of None \<Rightarrow> True | Some s \<Rightarrow> s = [])"

definition js_or :: "string option \<Rightarrow> string option \<Rightarrow> string option" where
  "js_or a b = (if truthy a then a else b)"

text \<open>
  The outcome of \<open>await fetch(...)\<close> followed by \<open>await response.json()\<close>: the
  fetch rejects, or it resolves with a status and a body that \<open>json()\<close> either decodes
  (\<open>Some\<close>) or rejects (\<open>None\<close>). \<open>response.ok\<close> holds for the statuses 200 to 299.
\<close>

datatype 'b fetch_result = FetchRejected | Responded nat "'b option"

definition ok :: "nat \<Rightarrow> bool" where
  "ok st = (200 \<le> st \<and> st \<le> 299)"


section \<open>Chat session state (providers/chat-provider.tsx)\<close>

datatype role = User | Ai

record viz_config =
  xKey :: "string option"
  yKey :: "string option"
  labelKey :: "string option"
  valueKey :: "string option"

text \<open>
  The payload is declared with \<open>data: any[]\<close>, but it arrives unchecked from the
  backend and the preview tests it with \<open>Array.isArray\<close>: the field holds any JSON
  value, or nothing (\<open>None\<close>) when the property is missing.
\<close>

record VisualizationPayload =
  vtype :: string
  vdata :: "json option"
  vconfig :: "viz_config option"

text \<open>
  A message as the provider stores it. The declared type gives every property but
  \<open>visualization\<close> a value, and the messages the application builds have them all;
  the spread of \<open>updateMessage\<close> stores what the patch carries, which may be
  \<open>undefined\<close>. A property that holds \<open>undefined\<close> is \<open>None\<close>.
\<close>

record ChatMessage =
  msg_id :: "string option"
  msg_role :: "role option"
  content :: "string option"
  timestamp :: "nat option"
  visualization :: "VisualizationPayload option"

text \<open>
  \<open>Partial<ChatMessage>\<close>: a property is missing (\<open>None\<close>), or present with the
  value \<open>undefined\<close> (\<open>Some None\<close>), which the type admits for an optional
  property, or present with a value (\<open>Some (Some v)\<close>).
\<close>

record ChatMessage_patch =
  p_id :: "string option option"
  p_role :: "role option option"
  p_content :: "string option option"
  p_timestamp :: "nat option option"
  p_visualization :: "VisualizationPayload option option"

record chat_session =
  messages :: "ChatMessage list"
  conversationId :: "string option"

definition greeting :: string where
  "greeting =
     ''Hello! I'' @ [CHR 0x27] @ ''m your AI data analyst. How can I help you today? Try asking ''
     @ [CHR 0x22] @ ''Show me sales by country'' @ [CHR 0x22] @ '' or ''
     @ [CHR 0x22] @ ''Generate a report'' @ [CHR 0x22] @ ''.''"

text \<open>The two \<open>useState\<close> initial values; \<open>t\<close> is the clock reading of \<open>new Date()\<close>.\<close>

definition initial_session :: "nat \<Rightarrow> chat_session" where
  "initial_session t =
     \<lparr>messages = [\<lparr>msg_id = Some ''1'', msg_role = Some Ai, content = Some greeting,
                    timestamp = Some t, visualization = None\<rparr>],
      conversationId = None\<rparr>"

definition addMessage :: "ChatMessage \<Rightarrow> 'a chat_session_scheme \<Rightarrow> 'a chat_session_scheme" where
  "addMessage message s = s\<lparr>messages := messages s @ [message]\<rparr>"

text \<open>
  The object spread \<open>{ ...msg, ...patch }\<close>: every property the patch has, whatever
  its value, replaces that of the message; the others are kept.
\<close>

definition spread :: "ChatMessage \<Rightarrow> ChatMessage_patch \<Rightarrow> ChatMessage" where
  "spread msg patch =
     \<lparr>msg_id = (case p_id patch of None \<Rightarrow> msg_id msg | Some v \<Rightarrow> v),
      msg_role = (case p_role patch of None \<Rightarrow> msg_role msg | Some v \<Rightarrow> v),
      content = (case p_content patch of None \<Rightarrow> content msg | Some v \<Rightarrow> v),
      timestamp = (case p_timestamp patch of None \<Rightarrow> timestamp msg | Some v \<Rightarrow> v),
      visualization = (case p_visualization patch of None \<Rightarrow> visualization msg | Some v \<Rightarrow> v)\<rparr>"

definition updateMessage ::
  "string \<Rightarrow> ChatMessage_patch \<Rightarrow> 'a chat_session_scheme \<Rightarrow> 'a chat_session_scheme" where
  "updateMessage i patch s =
     s\<lparr>messages :=
         map (\<lambda>msg. if msg_id msg = Some i then spread msg patch else msg) (messages s)\<rparr>"

definition setConversationId ::
  "string option \<Rightarrow> 'a chat_session_scheme \<Rightarrow> 'a chat_session_scheme" where
  "setConversationId c s = s\<lparr>conversationId := c\<rparr>"

definition clearMessages :: "'a chat_session_scheme \<Rightarrow> 'a chat_session_scheme" where
  "clearMessages s = s\<lparr>messages := [], conversationId := None\<rparr>"

text \<open>A sequence of \<open>addMessage\<close> calls, in call order.\<close>

fun add_all :: "ChatMessage list \<Rightarrow> 'a chat_session_scheme \<Rightarrow> 'a chat_session_scheme" where
  "add_all [] s = s"
| "add_all (m # ms) s = add_all ms (addMessage m s)"


section \<open>Chat panel (components/chat/chat-interface.tsx)\<close>

text \<open>
  The component keeps the text of the input box and the loading flag beside the session
  it obtains from the provider.
\<close>

record chat_ui = chat_session +
  input :: string
  isLoading :: bool

text \<open>The body of the POST to \<open>/api/chat\<close>.\<close>

record chat_request =
  req_message :: string
  req_conversationId :: "string option"

text \<open>
  What the handler reads from the decoded body \<open>data\<close>: the properties
  \<open>conversationId\<close>, \<open>response\<close> and \<open>visualization\<close>, each of which may be
  missing. When the body is the JSON value \<open>null\<close>, reading a property of it throws.
\<close>

record chat_response =
  resp_response :: "string option"
  resp_conversationId :: "string option"
  resp_visualization :: "VisualizationPayload option"

datatype chat_data = DataNull | Data chat_response

definition apology :: string where
  "apology =
     ''Sorry, I'' @ [CHR 0x27] @ ''m having trouble connecting to the backend. Please check if the API server is running.''"

text \<open>
  The three messages the handler builds. \<open>now\<close> is the reading of \<open>Date.now()\<close>
  and \<open>date\<close> that of \<open>new Date()\<close> at the point where the message is built.
\<close>

definition userMessage :: "nat \<Rightarrow> nat \<Rightarrow> string \<Rightarrow> ChatMessage" where
  "userMessage now date messageText =
     \<lparr>msg_id = Some (show_nat now), msg_role = Some User, content = Some messageText,
      timestamp = Some date, visualization = None\<rparr>"

definition aiMessage :: "nat \<Rightarrow> nat \<Rightarrow> chat_response \<Rightarrow> ChatMessage" where
  "aiMessage now date d =
     \<lparr>msg_id = Some (show_nat (now + 1)), msg_role = Some Ai,
      content = js_or (resp_response d) (Some ''No response from AI''),
      timestamp = Some date, visualization = resp_visualization d\<rparr>"

definition errorMessage :: "nat \<Rightarrow> nat \<Rightarrow> ChatMessage" where
  "errorMessage now date =
     \<lparr>msg_id = Some (show_nat (now + 1)), msg_role = Some Ai, content = Some apology,
      timestamp = Some date, visualization = None\<rparr>"

text \<open>
  \<open>handleSendMessage\<close> up to the point where it awaits the fetch. The result is the
  new state and the request that was sent, if any. The handler is the one of the latest
  render, so the \<open>conversationId\<close> and \<open>input\<close> it reads are those of the state
  at the moment of the call.
\<close>

definition send_begin ::
  "string option \<Rightarrow> nat \<Rightarrow> nat \<Rightarrow> chat_ui \<Rightarrow> chat_ui \<times> chat_request option" where
  "send_begin text now date s =
     (let messageText = (case js_or text (Some (trim (input s))) of None \<Rightarrow> [] | Some t \<Rightarrow> t)
      in if messageText = [] then (s, None)
         else
           (addMessage (userMessage now date messageText) (s\<lparr>input := [], isLoading := True\<rparr>),
            Some \<lparr>req_message = messageText, req_conversationId = conversationId s\<rparr>))"

text \<open>
  The \<open>try\<close> block after the fetch has settled, with \<open>None\<close> for an exception:
  a rejected fetch, a response that is not \<open>ok\<close>, a body that does not decode, and a
  \<open>null\<close> body all throw before any state is written.
\<close>

definition try_reply :: "chat_data fetch_result \<Rightarrow> nat \<Rightarrow> nat \<Rightarrow> chat_ui \<Rightarrow> chat_ui option" where
  "try_reply res now date s =
     (case res of
        FetchRejected \<Rightarrow> None
      | Responded st body \<Rightarrow>
          if \<not> ok st then None
          else (case body of
                  None \<Rightarrow> None
                | Some DataNull \<Rightarrow> None
                | Some (Data d) \<Rightarrow>
                    Some (addMessage (aiMessage now date d)
                            (if truthy (resp_conversationId d)
                             then setConversationId (resp_conversationId d) s else s))))"

text \<open>\<open>handleSendMessage\<close> from the settled fetch on: \<open>try\<close>, \<open>catch\<close>, \<open>finally\<close>.\<close>

definition send_finish :: "chat_data fetch_result \<Rightarrow> nat \<Rightarrow> nat \<Rightarrow> chat_ui \<Rightarrow> chat_ui" where
  "send_finish res now date s =
     (case try_reply res now date s of
        Some s' \<Rightarrow> s'
      | None \<Rightarrow> addMessage (errorMessage now date) s)
     \<lparr>isLoading := False\<rparr>"

text \<open>
  A whole call that nothing else interleaves with: \<open>now1\<close>, \<open>date1\<close> are the clock
  readings for the user message, \<open>res\<close> is the outcome of the fetch and \<open>now2\<close>,
  \<open>date2\<close> are the readings for the reply.
\<close>

definition handleSendMessage ::
  "string option \<Rightarrow> nat \<Rightarrow> nat \<Rightarrow> chat_data fetch_result \<Rightarrow> nat \<Rightarrow> nat \<Rightarrow> chat_ui \<Rightarrow> chat_ui" where
  "handleSendMessage text now1 date1 res now2 date2 s =
     (case send_begin text now1 date1 s of
        (s1, None) \<Rightarrow> s1
      | (s1, Some req) \<Rightarrow> send_finish res now2 date2 s1)"

text \<open>
  Everything that writes the session: the three operations of the provider and the two
  halves of a send.
\<close>

datatype chat_event =
    Add ChatMessage
  | Update string ChatMessage_patch
  | Clear
  | SendBegin "string option" nat nat
  | SendFinish "chat_data fetch_result" nat nat

fun step :: "chat_event \<Rightarrow> chat_ui \<Rightarrow> chat_ui" where
  "step (Add m) s = addMessage m s"
| "step (Update i p) s = updateMessage i p s"
| "step Clear s = clearMessages s"
| "step (SendBegin text now date) s = fst (send_begin text now date s)"
| "step (SendFinish res now date) s = send_finish res now date s"

text \<open>The identifier a settled fetch makes the session adopt, if any.\<close>

fun adopted :: "chat_data fetch_result \<Rightarrow> string option" where
  "adopted (Responded st (Some (Data d))) =
     (if ok st \<and> truthy (resp_conversationId d) then resp_conversationId d else None)"
| "adopted _ = None"


section \<open>Visualization preview (components/chat/chat-interface.tsx)\<close>

text \<open>
  \<open>Object.keys\<close>: the keys of an object, the indices of an array or of a string,
  nothing for a number or a boolean, and a \<open>TypeError\<close> for \<open>null\<close>.
\<close>

fun Object_keys :: "json \<Rightarrow> js_error + string list" where
  "Object_keys JNull = Inl TypeError"
| "Object_keys (JObj kvs) = Inr (map fst kvs)"
| "Object_keys (JArr xs) = Inr (map show_nat [0..<length xs])"
| "Object_keys (JStr s) = Inr (map show_nat [0..<length s])"
| "Object_keys (JBool b) = Inr []"
| "Object_keys (JNum n) = Inr []"

text \<open>What the component returns: one of the two placeholders, or the framed chart.\<close>

datatype rendered =
    Unavailable
  | CannotDetermine
  | Chart string "json list" string string

definition is_array :: "json option \<Rightarrow> bool" where
  "is_array d = (case d of Some (JArr xs) \<Rightarrow> True | _ \<Rightarrow> False)"

definition config_field ::
  "(viz_config \<Rightarrow> string option) \<Rightarrow> VisualizationPayload \<Rightarrow> string option" where
  "config_field f v = (case vconfig v of None \<Rightarrow> None | Some c \<Rightarrow> f c)"

definition VisualizationPreview :: "VisualizationPayload \<Rightarrow> js_error + rendered" where
  "VisualizationPreview v =
     (let data = (case vdata v of Some (JArr xs) \<Rightarrow> xs | _ \<Rightarrow> [])
      in case data of
           [] \<Rightarrow> Inr Unavailable
         | row # _ \<Rightarrow>
             (let sample = (case row of JNull \<Rightarrow> JObj [] | _ \<Rightarrow> row)
              in case Object_keys sample of
                   Inl e \<Rightarrow> Inl e
                 | Inr keys \<Rightarrow>
                     (let key0 = (case keys of [] \<Rightarrow> None | k # _ \<Rightarrow> Some k);
                          labelKey = js_or (config_field labelKey v) (js_or (config_field xKey v) key0);
                          valueKey =
                            js_or (config_field valueKey v)
                              (js_or (config_field yKey v)
                                 (js_or (find (\<lambda>key. Some key \<noteq> labelKey) keys) key0))
                      in if js_not labelKey \<or> js_not valueKey then Inr CannotDetermine
                         else Inr (Chart (vtype v) data (the labelKey) (the valueKey)))))"

text \<open>
  The message list renders the preview only for a message of role \<open>ai\<close> that carries
  a payload.
\<close>

definition message_preview :: "ChatMessage \<Rightarrow> (js_error + rendered) option" where
  "message_preview msg =
     (case visualization msg of
        None \<Rightarrow> None
      | Some v \<Rightarrow> if msg_role msg = Some Ai then Some (VisualizationPreview v) else None)"

text \<open>
  The field selection section 4.4 of the specification describes for rows without an
  explicit mapping, written from its words over the keys of the first row: the first key
  is the category, the first other key different from it is the value, and the category
  is the value when there is no other key.
\<close>

definition spec_fields :: "string list \<Rightarrow> (string \<times> string) option" where
  "spec_fields keys =
     (case keys of
        [] \<Rightarrow> None
      | k # ks \<Rightarrow> Some (k, case filter (\<lambda>x. x \<noteq> k) ks of [] \<Rightarrow> k | x # _ \<Rightarrow> x))"


section \<open>Report page (app/reports/page.tsx)\<close>

record report_type =
  rt_label :: string
  rt_value :: string
  rt_template :: string

record time_period =
  tp_label :: string
  tp_value :: string

definition REPORT_TYPES :: "report_type list" where
  "REPORT_TYPES =
     [\<lparr>rt_label = ''Executive Summary'', rt_value = ''executive-summary'',
       rt_template = ''Executive summary of key performance metrics''\<rparr>,
      \<lparr>rt_label = ''Detailed Analysis'', rt_value = ''detailed-analysis'',
       rt_template = ''Detailed breakdown of sales, customers, and products''\<rparr>,
      \<lparr>rt_label = ''Custom Report'', rt_value = ''custom'', rt_template = ''Custom analysis''\<rparr>]"

definition TIME_PERIODS :: "time_period list" where
  "TIME_PERIODS =
     [\<lparr>tp_label = ''Last 30 days'', tp_value = ''30d''\<rparr>,
      \<lparr>tp_label = ''Last Quarter'', tp_value = ''quarter''\<rparr>,
      \<lparr>tp_label = ''Last Year'', tp_value = ''year''\<rparr>,
      \<lparr>tp_label = ''Custom Range'', tp_value = ''custom''\<rparr>]"

record reports_page =
  reportType :: string
  timePeriod :: string
  page_notes :: string

text \<open>\<open>Array.prototype.join\<close> on strings.\<close>

fun join :: "string \<Rightarrow> string list \<Rightarrow> string" where
  "join sep [] = []"
| "join sep [x] = x"
| "join sep (x # y # ys) = x @ sep @ join sep (y # ys)"

definition buildQuery :: "reports_page \<Rightarrow> string" where
  "buildQuery st =
     (let typeTemplate =
            (case find (\<lambda>t. rt_value t = reportType st) REPORT_TYPES of
               None \<Rightarrow> [] | Some t \<Rightarrow> rt_template t);
          periodTemplate =
            (case find (\<lambda>t. tp_value t = timePeriod st) TIME_PERIODS of
               None \<Rightarrow> [] | Some t \<Rightarrow> tp_label t)
      in join '' | ''
           (filter (\<lambda>part. part \<noteq> [])
              [typeTemplate, ''Time period: '' @ periodTemplate, trim (page_notes st)]))"

text \<open>The argument of \<open>generateReport\<close>.\<close>

record generate_call =
  gc_query :: string
  gc_format :: string

text \<open>
  \<open>handleGenerate\<close>. The hook \<open>useReportGeneration\<close> lives in \<open>lib/api-client\<close>:
  its state \<open>'h\<close>, its flag \<open>generating\<close> and its operation \<open>generateReport\<close>,
  which is the only place where a request is issued, are parameters.
\<close>

definition handleGenerate ::
  "(generate_call \<Rightarrow> 'h \<Rightarrow> 'h) \<Rightarrow> ('h \<Rightarrow> bool) \<Rightarrow> reports_page \<Rightarrow> 'h \<Rightarrow> 'h" where
  "handleGenerate generateReport generating st h =
     (if generating h then h
      else (let query = buildQuery st
            in if trim query = [] then h
               else generateReport \<lparr>gc_query = query, gc_format = ''pdf''\<rparr> h))"

text \<open>
  Modelled from the spec: the state of the report generation client, which is the hook
  \<open>useReportGeneration\<close> in \<open>lib/api-client\<close>, a file that is not among the
  sources. Section 4.2 gives it the states \<open>idle\<close>, \<open>generating\<close>,
  \<open>succeeded\<close> and \<open>failed\<close>; the model keeps beside the state the creation
  requests submitted so far.
\<close>

datatype report_status = Idle | Generating | Succeeded | Failed

record report_generation =
  rg_status :: report_status
  rg_requests :: "generate_call list"

text \<open>
  Modelled from the spec: the generate operation of that client, \<open>generateReport\<close>,
  which is not among the sources either. Section 4.2: a generate call with a non-empty query
  string and a requested output format takes the client to \<open>generating\<close>, where it
  submits the creation request; the call fails immediately, with no transition, if the
  query is empty after trimming white space. The specification names this transition out
  of \<open>idle\<close> and is silent on a call made in another state; the model starts the
  generation there too.
\<close>

definition generateReport :: "generate_call \<Rightarrow> report_generation \<Rightarrow> report_generation" where
  "generateReport c h =
     (if trim (gc_query c) = [] then h
      else h\<lparr>rg_status := Generating, rg_requests := rg_requests h @ [c]\<rparr>)"


section \<open>Table information route (app/api/tables/[tableName]/route.ts)\<close>

text \<open>
  A JSON text as a backend sends it and as the route answers it: a number is the exact
  value of its literal, a string is the sequence of characters it denotes, an object is
  the list of its members in the order of the text, in which a name may occur more than
  once.
\<close>

datatype json_text =
    TNull
  | TBool bool
  | TNum rat
  | TStr string
  | TArr "json_text list"
  | TObj "(string \<times> json_text) list"












record proxy_response =
  status :: nat
  body :: json_text



section \<open>Shared lemmas\<close>

lemma js_or_None [simp]: "js_or None b = b"
  by (simp add: js_or_def truthy_def)

lemma js_or_Some: "js_or (Some x) b = (if x = [] then b else Some x)"
  by (simp add: js_or_def truthy_def)

lemma js_not_truthy: "js_not a = (\<not> truthy a)"
  by (simp add: js_not_def truthy_def split: option.splits)

lemma find_as_filter: "find P xs = (case filter P xs of [] \<Rightarrow> None | x # _ \<Rightarrow> Some x)"
  by (induction xs) simp_all

lemma messages_add_all: "messages (add_all ms s) = messages s @ ms"
  by (induction ms arbitrary: s) (simp_all add: addMessage_def)

lemma conversationId_add_all: "conversationId (add_all ms s) = conversationId s"
  by (induction ms arbitrary: s) (simp_all add: addMessage_def)

lemma trim_Nil_iff: "trim s = [] \<longleftrightarrow> (\<forall>c \<in> set s. is_space c)"
proof -
  have "trim s = [] \<longleftrightarrow> (\<forall>c \<in> set (dropWhile is_space s). is_space c)"
    by (simp add: trim_def dropWhile_eq_Nil_conv)
  also have "\<dots> \<longleftrightarrow> dropWhile is_space s = []"
  proof
    assume all: "\<forall>c \<in> set (dropWhile is_space s). is_space c"
    show "dropWhile is_space s = []"
    proof (rule ccontr)
      assume ne: "dropWhile is_space s \<noteq> []"
      then have "\<not> is_space (hd (dropWhile is_space s))"
        by (rule hd_dropWhile)
      moreover have "hd (dropWhile is_space s) \<in> set (dropWhile is_space s)"
        using ne by simp
      ultimately show False using all by blast
    qed
  next
    assume e: "dropWhile is_space s = []"
    show "\<forall>c \<in> set (dropWhile is_space s). is_space c"
      unfolding e by simp
  qed
  also have "\<dots> \<longleftrightarrow> (\<forall>c \<in> set s. is_space c)"
    by (simp add: dropWhile_eq_Nil_conv)
  finally show ?thesis .
qed


section \<open>Chat session state: append, update, clear\<close>

text \<open>
  C2, as amended. A sequence of \<open>addMessage\<close> calls leaves the log as it was, followed
  by the appended messages in call order: nothing is dropped, reordered or deduplicated.
  \<open>addMessage\<close> does not inspect identifiers, so every identifier appears at most
  once in the result exactly when the identifiers already in the log and those of the
  appended messages are pairwise distinct.
\<close>

theorem add_all_order_and_ids:
  "messages (add_all ms s) = messages s @ ms
   \<and> (distinct (map msg_id (messages (add_all ms s)))
        \<longleftrightarrow> distinct (map msg_id (messages s)) \<and> distinct (map msg_id ms)
            \<and> set (map msg_id (messages s)) \<inter> set (map msg_id ms) = {})"
  by (simp add: messages_add_all)

theorem add_all_order_and_ids_witness:
  "messages (add_all [userMessage 7 7 ''hi'', errorMessage 8 8] (initial_session 0))
     = messages (initial_session 0) @ [userMessage 7 7 ''hi'', errorMessage 8 8]
   \<and> distinct (map msg_id
        (messages (add_all [userMessage 7 7 ''hi'', errorMessage 8 8] (initial_session 0))))"
proof -
  have ids: "show_nat 7 = ''7''" "show_nat 9 = ''9''"
    by code_simp+
  have 1: "distinct (map msg_id (messages (initial_session 0)))"
    by (simp add: initial_session_def)
  have 2: "distinct (map msg_id [userMessage 7 7 ''hi'', errorMessage 8 8])"
    by (simp add: userMessage_def errorMessage_def ids)
  have 3: "set (map msg_id (messages (initial_session 0)))
             \<inter> set (map msg_id [userMessage 7 7 ''hi'', errorMessage 8 8]) = {}"
    by (simp add: initial_session_def userMessage_def errorMessage_def ids)
  from add_all_order_and_ids
         [of "[userMessage 7 7 ''hi'', errorMessage 8 8]" "initial_session 0"] 1 2 3
  show ?thesis by blast
qed

text \<open>
  The claim as stated fails: a reply built at clock reading 8 gets the identifier of
  \<open>8 + 1\<close>, a user message built at clock reading 9 gets the identifier of \<open>9\<close>,
  and appending both leaves the same identifier in the log twice.
\<close>

theorem repeated_id_counterexample:
  "\<not> distinct (map msg_id
        (messages (add_all [errorMessage 8 8, userMessage 9 9 ''hi''] (initial_session 0))))"
  by (simp add: addMessage_def initial_session_def userMessage_def errorMessage_def)

text \<open>
  C4. \<open>clearMessages\<close>, applied to any session state whatever its message log and
  conversation identifier, yields the empty log and the unset (\<open>null\<close>) conversation
  identifier.
\<close>

theorem clear_resets:
  "messages (clearMessages s) = [] \<and> conversationId (clearMessages s) = None"
  by (simp add: clearMessages_def)

text \<open>
  C9. \<open>updateMessage i patch\<close> keeps the length of the log. At every position whose
  message has identifier \<open>i\<close> the new message has, property by property, the value
  the patch carries for it when the patch has that property and the old value when it
  has not; at every other position the message is the old one. So the order is kept,
  every message with identifier \<open>i\<close> is merged and no other message changes. When
  no message has identifier \<open>i\<close> the whole state is unchanged, and the conversation
  identifier is never touched.
\<close>

theorem updateMessage_frame:
  "length (messages (updateMessage i patch s)) = length (messages s)
   \<and> (\<forall>k < length (messages s).
         messages (updateMessage i patch s) ! k =
           (if msg_id (messages s ! k) = Some i
            then \<lparr>msg_id = (case p_id patch of
                              None \<Rightarrow> msg_id (messages s ! k) | Some v \<Rightarrow> v),
                  msg_role = (case p_role patch of
                                None \<Rightarrow> msg_role (messages s ! k) | Some v \<Rightarrow> v),
                  content = (case p_content patch of
                               None \<Rightarrow> content (messages s ! k) | Some v \<Rightarrow> v),
                  timestamp = (case p_timestamp patch of
                                 None \<Rightarrow> timestamp (messages s ! k) | Some v \<Rightarrow> v),
                  visualization = (case p_visualization patch of
                                     None \<Rightarrow> visualization (messages s ! k) | Some v \<Rightarrow> v)\<rparr>
            else messages s ! k))
   \<and> (Some i \<notin> msg_id ` set (messages s) \<longrightarrow> updateMessage i patch s = s)
   \<and> conversationId (updateMessage i patch s) = conversationId s"
proof -
  have "Some i \<notin> msg_id ` set (messages s) \<Longrightarrow>
        map (\<lambda>msg. if msg_id msg = Some i then spread msg patch else msg) (messages s)
          = messages s"
    by (rule map_idI) (auto simp: image_iff)
  then show ?thesis
    by (simp add: updateMessage_def spread_def)
qed

text \<open>
  A patch that gives a role and a content, carries \<open>timestamp\<close> with the value
  \<open>undefined\<close> and has no other property, applied to the third of three messages and
  then under an identifier that no message has.
\<close>

theorem updateMessage_frame_witness:
  "length (messages (updateMessage ''9''
             \<lparr>p_id = None, p_role = Some (Some User), p_content = Some (Some ''new''),
              p_timestamp = Some None, p_visualization = None\<rparr>
             (add_all [userMessage 7 7 ''hi'',
                       aiMessage 8 8 \<lparr>resp_response = Some ''old'', resp_conversationId = None,
                         resp_visualization = Some \<lparr>vtype = ''bar'', vdata = None, vconfig = None\<rparr>\<rparr>]
                (initial_session 0)))) = 3
   \<and> messages (updateMessage ''9''
             \<lparr>p_id = None, p_role = Some (Some User), p_content = Some (Some ''new''),
              p_timestamp = Some None, p_visualization = None\<rparr>
             (add_all [userMessage 7 7 ''hi'',
                       aiMessage 8 8 \<lparr>resp_response = Some ''old'', resp_conversationId = None,
                         resp_visualization = Some \<lparr>vtype = ''bar'', vdata = None, vconfig = None\<rparr>\<rparr>]
                (initial_session 0))) ! 1
       = userMessage 7 7 ''hi''
   \<and> messages (updateMessage ''9''
             \<lparr>p_id = None, p_role = Some (Some User), p_content = Some (Some ''new''),
              p_timestamp = Some None, p_visualization = None\<rparr>
             (add_all [userMessage 7 7 ''hi'',
                       aiMessage 8 8 \<lparr>resp_response = Some ''old'', resp_conversationId = None,
                         resp_visualization = Some \<lparr>vtype = ''bar'', vdata = None, vconfig = None\<rparr>\<rparr>]
                (initial_session 0))) ! 2
       = \<lparr>msg_id = Some ''9'', msg_role = Some User, content = Some ''new'', timestamp = None,
          visualization = Some \<lparr>vtype = ''bar'', vdata = None, vconfig = None\<rparr>\<rparr>
   \<and> updateMessage ''42''
         \<lparr>p_id = None, p_role = Some (Some User), p_content = Some (Some ''new''),
          p_timestamp = Some None, p_visualization = None\<rparr>
         (add_all [userMessage 7 7 ''hi'',
                   aiMessage 8 8 \<lparr>resp_response = Some ''old'', resp_conversationId = None,
                     resp_visualization = Some \<lparr>vtype = ''bar'', vdata = None, vconfig = None\<rparr>\<rparr>]
            (initial_session 0))
       = add_all [userMessage 7 7 ''hi'',
                  aiMessage 8 8 \<lparr>resp_response = Some ''old'', resp_conversationId = None,
                    resp_visualization = Some \<lparr>vtype = ''bar'', vdata = None, vconfig = None\<rparr>\<rparr>]
           (initial_session 0)"
proof -
  let ?p = "\<lparr>p_id = None, p_role = Some (Some User), p_content = Some (Some ''new''),
              p_timestamp = Some None, p_visualization = None\<rparr>"
  let ?s = "add_all [userMessage 7 7 ''hi'',
                     aiMessage 8 8 \<lparr>resp_response = Some ''old'', resp_conversationId = None,
                       resp_visualization = Some \<lparr>vtype = ''bar'', vdata = None, vconfig = None\<rparr>\<rparr>]
              (initial_session 0)"
  have ids: "show_nat 7 = ''7''" "show_nat 9 = ''9''"
    by code_simp+
  have absent: "Some ''42'' \<notin> msg_id ` set (messages ?s)"
    by (simp add: addMessage_def initial_session_def userMessage_def aiMessage_def ids)
  from updateMessage_frame [of "''9''" ?p ?s] updateMessage_frame [of "''42''" ?p ?s] absent
  show ?thesis
    by (simp add: addMessage_def initial_session_def userMessage_def aiMessage_def ids
        js_or_Some)
qed

section \<open>Sending a chat message\<close>

lemma messages_send_begin:
  "send_begin text now date s = (s1, Some req) \<Longrightarrow>
   messages s1 = messages s @ [userMessage now date (req_message req)]
   \<and> conversationId s1 = conversationId s
   \<and> req_conversationId req = conversationId s
   \<and> req_message req \<noteq> []"
  by (auto simp: send_begin_def Let_def addMessage_def split: if_splits)

lemma try_reply_failed:
  "res = FetchRejected \<or> (res = Responded st b \<and> \<not> ok st) \<Longrightarrow> try_reply res now date s = None"
  by (auto simp: try_reply_def)

lemma send_finish_failed:
  "try_reply res now date s = None \<Longrightarrow>
   messages (send_finish res now date s) = messages s @ [errorMessage now date]
   \<and> conversationId (send_finish res now date s) = conversationId s"
  by (simp add: send_finish_def addMessage_def)

lemma conversationId_send_finish:
  "conversationId (send_finish res now date s)
     = (case adopted res of None \<Rightarrow> conversationId s | Some c \<Rightarrow> Some c)"
proof (cases "try_reply res now date s")
  case None
  then have "adopted res = None"
    by (cases res rule: adopted.cases)
       (auto simp: try_reply_def split: if_splits option.splits chat_data.splits)
  with send_finish_failed [OF None] show ?thesis by simp
next
  case (Some s')
  then show ?thesis
    by (cases res rule: adopted.cases)
       (auto simp: try_reply_def send_finish_def addMessage_def setConversationId_def truthy_def
             split: if_splits option.splits chat_data.splits)
qed

text \<open>
  C6. When the request of a send fails, because the fetch rejects or because the response
  is not 2xx, the handler appends to the log, whatever it holds by then, one message of
  role \<open>ai\<close> with the fixed apologetic text; in a send that nothing interleaves with,
  the log ends with the user message followed by that apology, so the user message
  stays.
\<close>

theorem failed_send_appends_apology:
  assumes "res = FetchRejected \<or> (res = Responded st b \<and> \<not> ok st)"
  shows "messages (send_finish res now2 date2 s) = messages s @ [errorMessage now2 date2]
    \<and> (send_begin text now1 date1 s0 = (s1, Some req) \<longrightarrow>
         messages (handleSendMessage text now1 date1 res now2 date2 s0)
           = messages s0 @ [userMessage now1 date1 (req_message req), errorMessage now2 date2])
    \<and> msg_role (errorMessage now2 date2) = Some Ai
    \<and> content (errorMessage now2 date2) = Some apology"
proof -
  have none: "\<And>s. try_reply res now2 date2 s = None"
    using assms by (rule try_reply_failed)
  have fin: "\<And>s. messages (send_finish res now2 date2 s) = messages s @ [errorMessage now2 date2]"
    using send_finish_failed [OF none] by simp
  have whole: "messages (handleSendMessage text now1 date1 res now2 date2 s0)
           = messages s0 @ [userMessage now1 date1 (req_message req), errorMessage now2 date2]"
    if b: "send_begin text now1 date1 s0 = (s1, Some req)"
  proof -
    have "handleSendMessage text now1 date1 res now2 date2 s0 = send_finish res now2 date2 s1"
      using b by (simp add: handleSendMessage_def)
    then show ?thesis
      using fin [of s1] messages_send_begin [OF b] by simp
  qed
  show ?thesis
    using fin whole by (simp add: errorMessage_def)
qed

theorem failed_send_appends_apology_witness:
  "\<not> ok 503
   \<and> messages (handleSendMessage None 7 7 (Responded 503 None) 8 8
        \<lparr>messages = [], conversationId = None, input = ''hi'', isLoading = False\<rparr>)
      = [userMessage 7 7 ''hi'', errorMessage 8 8]
   \<and> msg_role (errorMessage 8 8) = Some Ai
   \<and> content (errorMessage 8 8) = Some apology"
proof -
  have a: "\<not> ok 503" by (simp add: ok_def)
  have h: "Responded 503 None = (FetchRejected :: chat_data fetch_result)
           \<or> ((Responded 503 None :: chat_data fetch_result) = Responded 503 None \<and> \<not> ok 503)"
    using a by simp
  have b: "send_begin None 7 7 \<lparr>messages = [], conversationId = None, input = ''hi'', isLoading = False\<rparr>
           = (\<lparr>messages = [userMessage 7 7 ''hi''], conversationId = None, input = [], isLoading = True\<rparr>,
              Some \<lparr>req_message = ''hi'', req_conversationId = None\<rparr>)"
    by (simp add: send_begin_def Let_def trim_def is_space_def addMessage_def)
  from failed_send_appends_apology [OF h, of 8 8 _ None 7 7
      "\<lparr>messages = [], conversationId = None, input = ''hi'', isLoading = False\<rparr>"
      "\<lparr>messages = [userMessage 7 7 ''hi''], conversationId = None, input = [], isLoading = True\<rparr>"
      "\<lparr>req_message = ''hi'', req_conversationId = None\<rparr>"] a b
  show ?thesis by simp
qed

text \<open>
  C8, as amended. On a successful turn the conversation identifier of the response is
  adopted when it is present and not the empty string, and the current one is kept when
  it is absent or empty; the request of every send carries the identifier the session
  holds at that moment, and beginning a send does not change it; over all operations
  that write the session, the identifier changes only by such an adoption or by
  \<open>clearMessages\<close>, which unsets it.
\<close>

theorem conversationId_adoption:
  "(ok st \<and> truthy (resp_conversationId d) \<longrightarrow>
      conversationId (send_finish (Responded st (Some (Data d))) now date s)
        = resp_conversationId d)
   \<and> (\<not> truthy (resp_conversationId d) \<longrightarrow>
      conversationId (send_finish (Responded st (Some (Data d))) now date s) = conversationId s)
   \<and> (send_begin text now date s = (s1, Some req) \<longrightarrow>
      req_conversationId req = conversationId s \<and> conversationId s1 = conversationId s)
   \<and> conversationId (step e s)
       = (case e of
            Clear \<Rightarrow> None
          | SendFinish res n t \<Rightarrow>
              (case adopted res of None \<Rightarrow> conversationId s | Some c \<Rightarrow> Some c)
          | _ \<Rightarrow> conversationId s)"
proof -
  have 1: "ok st \<and> truthy (resp_conversationId d) \<longrightarrow>
      conversationId (send_finish (Responded st (Some (Data d))) now date s)
        = resp_conversationId d"
    by (auto simp: conversationId_send_finish truthy_def split: option.splits)
  have 2: "\<not> truthy (resp_conversationId d) \<longrightarrow>
      conversationId (send_finish (Responded st (Some (Data d))) now date s) = conversationId s"
    by (simp add: conversationId_send_finish)
  have 3: "send_begin text now date s = (s1, Some req) \<longrightarrow>
      req_conversationId req = conversationId s \<and> conversationId s1 = conversationId s"
    using messages_send_begin [of "text" now date s s1 req] by blast
  have 4: "conversationId (step e s)
       = (case e of
            Clear \<Rightarrow> None
          | SendFinish res n t \<Rightarrow>
              (case adopted res of None \<Rightarrow> conversationId s | Some c \<Rightarrow> Some c)
          | _ \<Rightarrow> conversationId s)"
  proof (cases e)
    case (SendBegin text' now' date')
    obtain s' r where b: "send_begin text' now' date' s = (s', r)"
      by (cases "send_begin text' now' date' s")
    have "conversationId s' = conversationId s"
      using b by (auto simp: send_begin_def Let_def addMessage_def split: if_splits)
    with SendBegin b show ?thesis by simp
  qed (simp_all add: addMessage_def updateMessage_def clearMessages_def conversationId_send_finish)
  from 1 2 3 4 show ?thesis by blast
qed

theorem conversationId_adoption_witness:
  "ok 200
   \<and> conversationId
       (send_finish
          (Responded 200 (Some (Data \<lparr>resp_response = Some ''ok'',
             resp_conversationId = Some ''c-42'', resp_visualization = None\<rparr>))) 8 8
          \<lparr>messages = [], conversationId = None, input = [], isLoading = True\<rparr>) = Some ''c-42''
   \<and> conversationId
       (send_finish
          (Responded 200 (Some (Data \<lparr>resp_response = Some ''ok'',
             resp_conversationId = None, resp_visualization = None\<rparr>))) 8 8
          \<lparr>messages = [], conversationId = Some ''c-42'', input = [], isLoading = True\<rparr>)
       = Some ''c-42''
   \<and> send_begin None 7 7
        \<lparr>messages = [], conversationId = Some ''c-42'', input = ''hi'', isLoading = False\<rparr>
       = (\<lparr>messages = [userMessage 7 7 ''hi''], conversationId = Some ''c-42'', input = [],
           isLoading = True\<rparr>,
          Some \<lparr>req_message = ''hi'', req_conversationId = Some ''c-42''\<rparr>)
   \<and> conversationId
       (step Clear \<lparr>messages = [], conversationId = Some ''c-42'', input = [], isLoading = False\<rparr>)
       = None"
proof -
  let ?d1 = "\<lparr>resp_response = Some ''ok'', resp_conversationId = Some ''c-42'',
              resp_visualization = None\<rparr>"
  let ?d2 = "\<lparr>resp_response = Some ''ok'', resp_conversationId = None,
              resp_visualization = None\<rparr>"
  let ?s0 = "\<lparr>messages = [], conversationId = None, input = [], isLoading = True\<rparr>"
  let ?s1 = "\<lparr>messages = [], conversationId = Some ''c-42'', input = [], isLoading = True\<rparr>"
  let ?s2 = "\<lparr>messages = [], conversationId = Some ''c-42'', input = ''hi'', isLoading = False\<rparr>"
  let ?s3 = "\<lparr>messages = [], conversationId = Some ''c-42'', input = [], isLoading = False\<rparr>"
  have a: "ok 200" by (simp add: ok_def)
  have t: "truthy (resp_conversationId ?d1)" "\<not> truthy (resp_conversationId ?d2)"
    by (simp_all add: truthy_def)
  have b: "send_begin None 7 7 ?s2
       = (\<lparr>messages = [userMessage 7 7 ''hi''], conversationId = Some ''c-42'', input = [],
           isLoading = True\<rparr>,
          Some \<lparr>req_message = ''hi'', req_conversationId = Some ''c-42''\<rparr>)"
    by (simp add: send_begin_def Let_def trim_def is_space_def addMessage_def)
  from conversationId_adoption [of 200 ?d1 8 8 ?s0]
       conversationId_adoption [of 200 ?d2 8 8 ?s1]
       conversationId_adoption [where s = ?s3 and e = Clear]
       conversationId_adoption [of _ _ 7 7 ?s2 None
         "\<lparr>messages = [userMessage 7 7 ''hi''], conversationId = Some ''c-42'',
           input = [], isLoading = True\<rparr>"
         "\<lparr>req_message = ''hi'', req_conversationId = Some ''c-42''\<rparr>"]
       a t b
  show ?thesis by simp
qed

text \<open>
  The claim as stated fails: a 2xx response whose \<open>conversationId\<close> is present and is
  the empty string is not adopted; the session keeps the identifier it had.
\<close>

theorem empty_conversationId_counterexample:
  "conversationId
     (send_finish
        (Responded 200
           (Some (Data \<lparr>resp_response = Some ''ok'', resp_conversationId = Some [],
                        resp_visualization = None\<rparr>)))
        8 8
        \<lparr>messages = [], conversationId = Some ''abc'', input = [], isLoading = True\<rparr>)
   = Some ''abc''"
  by (simp add: send_finish_def try_reply_def ok_def truthy_def addMessage_def)


section \<open>Visualization preview\<close>

lemma VisualizationPreview_never_throws: "VisualizationPreview v \<noteq> Inl e"
  by (simp add: VisualizationPreview_def Let_def
      split: option.splits json.splits list.splits sum.splits)

text \<open>
  C3, as amended. For a non-empty list of rows whose first row is an object, and no
  field mapping: when the first key of the first row is a non-empty string it is the
  category field, and the value field is the first other key different from it when
  there is one and it is a non-empty string, and the category field itself otherwise;
  when the first row has no key, or its first key is the empty string, the component
  renders the placeholder for fields that cannot be determined.
\<close>

theorem default_fields:
  assumes "vdata v = Some (JArr (JObj kvs # rows))" and "vconfig v = None"
  shows "VisualizationPreview v =
           (case map fst kvs of
              [] \<Rightarrow> Inr CannotDetermine
            | k # ks \<Rightarrow>
                if k = [] then Inr CannotDetermine
                else Inr (Chart (vtype v) (JObj kvs # rows) k
                            (case filter (\<lambda>x. x \<noteq> k) ks of
                               [] \<Rightarrow> k
                             | x # _ \<Rightarrow> if x = [] then k else x)))"
proof (cases "map fst kvs")
  case Nil
  with assms show ?thesis
    by (simp add: VisualizationPreview_def config_field_def js_not_def)
next
  case (Cons k ks)
  show ?thesis
  proof (cases "k = []")
    case True
    with assms Cons show ?thesis
      by (simp add: VisualizationPreview_def config_field_def js_not_def js_or_Some
          split: option.splits)
  next
    case False
    with assms Cons show ?thesis
      by (simp add: VisualizationPreview_def config_field_def js_not_def js_or_Some
          find_as_filter split: list.splits)
  qed
qed

text \<open>The example of the specification: \<open>country\<close> is the category, \<open>sales\<close> the value.\<close>

theorem default_fields_witness:
  "VisualizationPreview
     \<lparr>vtype = ''bar'',
      vdata = Some (JArr [JObj [(''country'', JStr ''US''), (''sales'', JNum 100)],
                          JObj [(''country'', JStr ''FR''), (''sales'', JNum 80)]]),
      vconfig = None\<rparr>
   = Inr (Chart ''bar''
            [JObj [(''country'', JStr ''US''), (''sales'', JNum 100)],
             JObj [(''country'', JStr ''FR''), (''sales'', JNum 80)]]
            ''country'' ''sales'')"
  using default_fields
    [of "\<lparr>vtype = ''bar'',
          vdata = Some (JArr [JObj [(''country'', JStr ''US''), (''sales'', JNum 100)],
                              JObj [(''country'', JStr ''FR''), (''sales'', JNum 80)]]),
          vconfig = None\<rparr>"
        "[(''country'', JStr ''US''), (''sales'', JNum 100)]"
        "[JObj [(''country'', JStr ''FR''), (''sales'', JNum 80)]]"]
  by simp

text \<open>
  The claim as stated fails: in the row \<open>{country: "US", "": 100}\<close> the first other
  key different from the category is the empty string, and the component takes the
  category field \<open>country\<close> as the value field instead.
\<close>

theorem empty_value_key_counterexample:
  "VisualizationPreview
     \<lparr>vtype = ''bar'',
      vdata = Some (JArr [JObj [(''country'', JStr ''US''), ([], JNum 100)]]),
      vconfig = None\<rparr>
   = Inr (Chart ''bar'' [JObj [(''country'', JStr ''US''), ([], JNum 100)]]
            ''country'' ''country'')
   \<and> spec_fields [''country'', []] = Some (''country'', [])"
  by (simp add: VisualizationPreview_def config_field_def js_not_def js_or_Some spec_fields_def)

text \<open>When no key of the first row is empty, the component selects what section 4.4 says.\<close>

lemma default_fields_agree_with_spec:
  assumes "vdata v = Some (JArr (JObj kvs # rows))" and "vconfig v = None"
    and "kvs \<noteq> []" and "[] \<notin> set (map fst kvs)"
  shows "\<exists>c x. spec_fields (map fst kvs) = Some (c, x)
           \<and> VisualizationPreview v = Inr (Chart (vtype v) (JObj kvs # rows) c x)"
proof -
  obtain k ks where keys: "map fst kvs = k # ks"
    using assms(3) by (cases kvs) auto
  have k: "k \<noteq> []" using assms(4) keys by auto
  have ne: "\<And>x xs. filter (\<lambda>x. x \<noteq> k) ks = x # xs \<Longrightarrow> x \<noteq> []"
  proof -
    fix x xs assume "filter (\<lambda>x. x \<noteq> k) ks = x # xs"
    then have "x \<in> set (filter (\<lambda>x. x \<noteq> k) ks)" by simp
    then have "x \<in> set (map fst kvs)" using keys by simp
    then show "x \<noteq> []" using assms(4) by blast
  qed
  show ?thesis
  proof (cases "filter (\<lambda>x. x \<noteq> k) ks")
    case Nil
    with assms(1,2) keys k show ?thesis
      by (simp add: VisualizationPreview_def config_field_def js_not_def js_or_Some
          find_as_filter spec_fields_def)
  next
    case (Cons x xs)
    with assms(1,2) keys k ne [OF Cons] show ?thesis
      by (simp add: VisualizationPreview_def config_field_def js_not_def js_or_Some
          find_as_filter spec_fields_def)
  qed
qed

text \<open>
  C5. Given an empty data array, whatever the chart type and the field mapping, the
  component returns the placeholder "Visualization data unavailable": it returns before
  the keys of any row are read, and it does not throw.
\<close>

theorem preview_empty_data:
  "VisualizationPreview (v\<lparr>vdata := Some (JArr [])\<rparr>) = Inr Unavailable"
  by (simp add: VisualizationPreview_def)

text \<open>
  C10. When the data field of the payload is not an array (any other JSON value, or no
  value at all), the component treats it as the empty array: it returns the placeholder
  "Visualization data unavailable", without reading any key and without throwing.
\<close>

theorem preview_non_array:
  "\<not> is_array (vdata v) \<Longrightarrow> VisualizationPreview v = Inr Unavailable"
  by (simp add: VisualizationPreview_def is_array_def split: option.splits json.splits)

theorem preview_non_array_witness:
  "\<not> is_array (Some (JObj [(''rows'', JArr [JObj [(''country'', JStr ''US'')]])]))
   \<and> \<not> is_array None
   \<and> VisualizationPreview
       \<lparr>vtype = ''bar'',
        vdata = Some (JObj [(''rows'', JArr [JObj [(''country'', JStr ''US'')]])]),
        vconfig = None\<rparr> = Inr Unavailable
   \<and> VisualizationPreview \<lparr>vtype = ''pie'', vdata = None, vconfig = None\<rparr> = Inr Unavailable"
proof -
  have a: "\<not> is_array (vdata \<lparr>vtype = ''bar'',
        vdata = Some (JObj [(''rows'', JArr [JObj [(''country'', JStr ''US'')]])]),
        vconfig = None\<rparr>)"
    by (simp add: is_array_def)
  have b: "\<not> is_array (vdata \<lparr>vtype = ''pie'', vdata = None, vconfig = None\<rparr>)"
    by (simp add: is_array_def)
  from preview_non_array [OF a] preview_non_array [OF b] a b show ?thesis by simp
qed

text \<open>In the message list such a payload shows the same placeholder, or no preview at all.\<close>

lemma message_preview_non_array:
  assumes "visualization msg = Some v" and "\<not> is_array (vdata v)"
  shows "message_preview msg = (if msg_role msg = Some Ai then Some (Inr Unavailable) else None)"
  using assms
  by (simp add: message_preview_def VisualizationPreview_def is_array_def
      split: option.splits json.splits)


section \<open>Report generation\<close>

text \<open>
  The query the page builds always holds the segment \<open>Time period: ...\<close>, so it is
  never blank: the second guard of \<open>handleGenerate\<close> is never taken, and whenever no
  report is being generated the handler calls \<open>generateReport\<close> with that query.
\<close>

lemma buildQuery_has_letter: "CHR ''T'' \<in> set (buildQuery st)"
  by (simp add: buildQuery_def Let_def)

lemma buildQuery_not_blank: "trim (buildQuery st) \<noteq> []"
proof -
  have "\<not> is_space (CHR ''T'')"
    by (simp add: is_space_def)
  then show ?thesis
    using buildQuery_has_letter [of st] trim_Nil_iff [of "buildQuery st"] by blast
qed

lemma handleGenerate_calls_generateReport:
  "handleGenerate gen generating st h =
     (if generating h then h
      else gen \<lparr>gc_query = buildQuery st, gc_format = ''pdf''\<rparr> h)"
  by (simp add: handleGenerate_def Let_def buildQuery_not_blank)

lemma page_starts_generation:
  "rg_status h \<noteq> Generating \<Longrightarrow>
   handleGenerate generateReport (\<lambda>h. rg_status h = Generating) st h =
     h\<lparr>rg_status := Generating,
       rg_requests := rg_requests h @ [\<lparr>gc_query = buildQuery st, gc_format = ''pdf''\<rparr>]\<rparr>"
  by (simp add: handleGenerate_calls_generateReport generateReport_def buildQuery_not_blank)



section \<open>Table information route\<close>









end
